theory Spec2Isabelle
  imports Complex_Main "HOL-Library.Sublist"
begin

section \<open>The drive-test analyzer: root-cause summary of \<^verbatim>\<open>app.py\<close>\<close>

text \<open>
  The source file of the repository is \<^verbatim>\<open>app.py\<close>, the Streamlit shell of the
  analyzer. The part of it with logic of its own is the root-cause rule table of the
  "Summary Report" tab (lines 515 to 566): for each selected analysis type it calls the
  analyzer, compares the headline number of the returned dict with fixed constants and
  appends a finding dict to the list \<^verbatim>\<open>root_causes\<close>.

  Numbers: the headline percentages and rates are Python floats, the area counts Python
  ints. A finite float is read as the real number it denotes, so \<^verbatim>\<open>x > 10\<close> is the
  order of the reals; NaN and the infinities are not values of the model.
\<close>

subsection \<open>Python's string formatting, as the f-strings of the findings use it\<close>

definition digit_char :: "nat \<Rightarrow> char" where
  "digit_char d = ''0123456789'' ! d"

text \<open>\<^verbatim>\<open>str(n)\<close> for a non-negative int: its decimal digits.\<close>

fun str_nat :: "nat \<Rightarrow> string" where
  "str_nat n = (if n < 10 then [digit_char n] else str_nat (n div 10) @ [digit_char (n mod 10)])"

text \<open>\<^verbatim>\<open>f"{i}"\<close> for an int.\<close>

definition str_int :: "int \<Rightarrow> string" where
  "str_int i = (if i < 0 then ''-'' @ str_nat (nat (- i)) else str_nat (nat i))"

text \<open>Rounding to the nearest integer, a tie to the even one (what float formatting does).\<close>

definition round_half_even :: "real \<Rightarrow> int" where
  "round_half_even x =
     (let f = \<lfloor>x\<rfloor>; d = x - of_int f
      in if d < 1 / 2 then f else if 1 / 2 < d then f + 1 else if even f then f else f + 1)"

text \<open>
  \<^verbatim>\<open>f"{x:.nf}"\<close>: the sign, the integer part, and \<open>n\<close> digits after the point, the
  exact value rounded half-even at the last digit.
\<close>

definition format_fixed :: "nat \<Rightarrow> real \<Rightarrow> string" where
  "format_fixed n x =
     (let m = nat (round_half_even (\<bar>x\<bar> * 10 ^ n));
          frac = str_nat (m mod 10 ^ n)
      in (if x < 0 then ''-'' else '''') @ str_nat (m div 10 ^ n) @
         (if n = 0 then '''' else ''.'' @ replicate (n - length frac) (CHR ''0'') @ frac))"

subsection \<open>The dicts the analyzers return, by the keys \<^verbatim>\<open>app.py\<close> reads\<close>

text \<open>
  A problem area is a row of the \<^verbatim>\<open>problem_areas\<close> table; its columns are those of the
  spec's ProblemArea (section 3).
\<close>

record problem_area =
  centroid_lat :: real
  centroid_lon :: real
  problem_type :: string
  sample_count :: nat
  avg_rsrp :: real
  avg_rsrq :: real
  avg_sinr :: real
  cell_id :: int
  severity :: string
  description :: string

record coverage_dict =
  coverage_issues_pct :: real
  critical_areas :: int
  problem_areas :: "problem_area list"

record interference_dict =
  interference_issues_pct :: real
  high_interference_areas :: int
  problem_areas :: "problem_area list"

record handover_dict =
  total_handovers :: int
  successful_handovers :: int
  failed_handovers :: int
  handover_success_rate :: real
  failure_causes :: "(string \<times> int) list"

record throughput_dict =
  avg_dl_throughput :: real
  avg_ul_throughput :: real
  peak_dl_throughput :: real
  peak_ul_throughput :: real
  dl_bottleneck_areas :: int
  ul_bottleneck_areas :: int
  bottleneck_causes :: "(string \<times> int) list"

record call_drop_dict =
  total_calls :: int
  completed_calls :: int
  dropped_calls :: int
  call_drop_rate :: real
  drop_causes :: "(string \<times> int) list"

text \<open>
  What the five analyzer calls of the summary tab return in one run, under the names of
  the local variables that hold them (lines 519, 529, 539, 549, 559). A call is made, and
  its value read, only when its analysis type is selected. The rule table is modelled
  over any values the analyzers of \<^verbatim>\<open>modules/analyzer.py\<close> may return.
\<close>

record outputs =
  coverage_results :: coverage_dict
  interference_results :: interference_dict
  handover_results :: handover_dict
  throughput_results :: throughput_dict
  call_drop_results :: call_drop_dict

text \<open>One entry of \<^verbatim>\<open>root_causes\<close>: a dict with these four keys.\<close>

record finding =
  Issue :: string
  Severity :: string
  Description :: string
  Recommendation :: string

subsection \<open>The rule table (lines 515 to 566)\<close>

text \<open>The static recommendation text of each issue type (lines 525, 535, 545, 555, 565).\<close>

definition coverage_recommendation :: string where
  "coverage_recommendation =
     ''Review cell site placement and antenna configurations. Consider adding new sites in critical areas.''"

definition interference_recommendation :: string where
  "interference_recommendation =
     ''Review PCI planning, adjust antenna tilts, and optimize frequency planning to reduce interference.''"

definition handover_recommendation :: string where
  "handover_recommendation =
     ''Review neighbor cell lists, optimize handover parameters, and check for missing neighbors.''"

definition throughput_recommendation :: string where
  "throughput_recommendation =
     ''Check resource allocation, scheduling algorithms, and consider capacity expansions in affected cells.''"

definition call_drop_recommendation :: string where
  "call_drop_recommendation =
     ''Review RRC configuration, mobility parameters, and cell coverage overlaps to reduce drops.''"

text \<open>
  Each block of the source is one step on the list built so far:
  \<^verbatim>\<open>if "Coverage Problems" in analysis_types: ... if pct > 10: root_causes.append({...})\<close>.
\<close>

definition coverage_rule :: "string list \<Rightarrow> outputs \<Rightarrow> finding list \<Rightarrow> finding list" where
  "coverage_rule analysis_types out root_causes =
     (if ''Coverage Problems'' \<in> set analysis_types then
        (let pct = coverage_dict.coverage_issues_pct (coverage_results out) in
         if pct > 10 then
           root_causes @
           [\<lparr>Issue = ''Coverage Problems'',
             Severity = (if pct > 25 then ''High'' else ''Medium''),
             Description = ''Poor signal coverage affecting '' @ format_fixed 1 pct @
                           ''% of the drive test area'',
             Recommendation = coverage_recommendation\<rparr>]
         else root_causes)
      else root_causes)"

definition interference_rule :: "string list \<Rightarrow> outputs \<Rightarrow> finding list \<Rightarrow> finding list" where
  "interference_rule analysis_types out root_causes =
     (if ''Interference'' \<in> set analysis_types then
        (let pct = interference_dict.interference_issues_pct (interference_results out) in
         if pct > 10 then
           root_causes @
           [\<lparr>Issue = ''Interference Issues'',
             Severity = (if pct > 25 then ''High'' else ''Medium''),
             Description = ''High interference affecting '' @ format_fixed 1 pct @
                           ''% of the drive test area'',
             Recommendation = interference_recommendation\<rparr>]
         else root_causes)
      else root_causes)"

definition handover_rule :: "string list \<Rightarrow> outputs \<Rightarrow> finding list \<Rightarrow> finding list" where
  "handover_rule analysis_types out root_causes =
     (if ''Handover Failures'' \<in> set analysis_types then
        (let rate = handover_success_rate (handover_results out) in
         if rate < 95 then
           root_causes @
           [\<lparr>Issue = ''Handover Failures'',
             Severity = (if rate < 90 then ''High'' else ''Medium''),
             Description = ''Handover failures with success rate of '' @ format_fixed 2 rate @ ''%'',
             Recommendation = handover_recommendation\<rparr>]
         else root_causes)
      else root_causes)"

definition throughput_rule :: "string list \<Rightarrow> outputs \<Rightarrow> finding list \<Rightarrow> finding list" where
  "throughput_rule analysis_types out root_causes =
     (if ''Throughput Bottlenecks'' \<in> set analysis_types then
        (let dl = dl_bottleneck_areas (throughput_results out);
             ul = ul_bottleneck_areas (throughput_results out) in
         if dl > 5 \<or> ul > 5 then
           root_causes @
           [\<lparr>Issue = ''Throughput Bottlenecks'',
             Severity = ''Medium'',
             Description = ''Low throughput areas identified: '' @ str_int dl @ '' DL and '' @
                           str_int ul @ '' UL locations'',
             Recommendation = throughput_recommendation\<rparr>]
         else root_causes)
      else root_causes)"

definition call_drop_rule :: "string list \<Rightarrow> outputs \<Rightarrow> finding list \<Rightarrow> finding list" where
  "call_drop_rule analysis_types out root_causes =
     (if ''Call Drops'' \<in> set analysis_types then
        (let rate = call_drop_rate (call_drop_results out) in
         if rate > 2 then
           root_causes @
           [\<lparr>Issue = ''Call Drops'',
             Severity = (if rate > 5 then ''High'' else ''Medium''),
             Description = ''Call drop rate of '' @ format_fixed 2 rate @ ''%'',
             Recommendation = call_drop_recommendation\<rparr>]
         else root_causes)
      else root_causes)"

text \<open>
  The list starts empty (line 515) and the five blocks run in the order of the source.
\<close>

definition root_causes :: "string list \<Rightarrow> outputs \<Rightarrow> finding list" where
  "root_causes analysis_types out =
     call_drop_rule analysis_types out
       (throughput_rule analysis_types out
         (handover_rule analysis_types out
           (interference_rule analysis_types out
             (coverage_rule analysis_types out []))))"

subsection \<open>Vocabulary for the properties of the rule table\<close>

text \<open>The findings of one issue type in an emitted list.\<close>

definition findings_of :: "string \<Rightarrow> finding list \<Rightarrow> finding list" where
  "findings_of issue fs = filter (\<lambda>f. Issue f = issue) fs"

text \<open>
  The five analysis types that have a block in the rule table, with the label tested by
  \<^verbatim>\<open>in analysis_types\<close>, the \<^verbatim>\<open>Issue\<close> text of the finding, and the part of a run's
  outputs that is the pipeline's own.
\<close>

datatype pipeline = Coverage | Interference | Handover | Throughput | CallDrops

primrec analysis_type :: "pipeline \<Rightarrow> string" where
  "analysis_type Coverage = ''Coverage Problems''"
| "analysis_type Interference = ''Interference''"
| "analysis_type Handover = ''Handover Failures''"
| "analysis_type Throughput = ''Throughput Bottlenecks''"
| "analysis_type CallDrops = ''Call Drops''"

primrec issue_of :: "pipeline \<Rightarrow> string" where
  "issue_of Coverage = ''Coverage Problems''"
| "issue_of Interference = ''Interference Issues''"
| "issue_of Handover = ''Handover Failures''"
| "issue_of Throughput = ''Throughput Bottlenecks''"
| "issue_of CallDrops = ''Call Drops''"

primrec same_results :: "pipeline \<Rightarrow> outputs \<Rightarrow> outputs \<Rightarrow> bool" where
  "same_results Coverage a b = (coverage_results a = coverage_results b)"
| "same_results Interference a b = (interference_results a = interference_results b)"
| "same_results Handover a b = (handover_results a = handover_results b)"
| "same_results Throughput a b = (throughput_results a = throughput_results b)"
| "same_results CallDrops a b = (call_drop_results a = call_drop_results b)"

text \<open>
  A list of findings is ranked by severity when no finding of severity High stands after
  a finding of severity Medium.
\<close>

definition ranked_by_severity :: "finding list \<Rightarrow> bool" where
  "ranked_by_severity fs =
     (\<forall>i j. i < j \<and> j < length fs \<and> Severity (fs ! i) = ''Medium'' \<longrightarrow>
            Severity (fs ! j) \<noteq> ''High'')"

text \<open>The order in which the source's blocks stand, by the issue each one reports.\<close>

definition block_order :: "string list" where
  "block_order = map issue_of [Coverage, Interference, Handover, Throughput, CallDrops]"

text \<open>
  Concrete runs for the examples below: the outputs with the given headline numbers
  (coverage percentage, interference percentage, handover success rate, DL and UL
  bottleneck areas, call drop rate) and every other key zero or empty.
\<close>

definition sample_outputs :: "real \<Rightarrow> real \<Rightarrow> real \<Rightarrow> int \<Rightarrow> int \<Rightarrow> real \<Rightarrow> outputs" where
  "sample_outputs cov intf ho dl ul cd =
     \<lparr>coverage_results =
        \<lparr>coverage_dict.coverage_issues_pct = cov, critical_areas = 0,
         coverage_dict.problem_areas = []\<rparr>,
      interference_results =
        \<lparr>interference_dict.interference_issues_pct = intf, high_interference_areas = 0,
         interference_dict.problem_areas = []\<rparr>,
      handover_results =
        \<lparr>total_handovers = 0, successful_handovers = 0, failed_handovers = 0,
         handover_success_rate = ho, failure_causes = []\<rparr>,
      throughput_results =
        \<lparr>avg_dl_throughput = 0, avg_ul_throughput = 0, peak_dl_throughput = 0,
         peak_ul_throughput = 0, dl_bottleneck_areas = dl, ul_bottleneck_areas = ul,
         bottleneck_causes = []\<rparr>,
      call_drop_results =
        \<lparr>total_calls = 0, completed_calls = 0, dropped_calls = 0, call_drop_rate = cd,
         drop_causes = []\<rparr>\<rparr>"

section \<open>The analysis engine, modelled from the spec\<close>

text \<open>
  \<^verbatim>\<open>app.py\<close> imports the analyzers from \<^verbatim>\<open>modules/analyzer.py\<close>, whose code is
  missing. The definitions of this section are therefore written from the spec's
  sections 3 and 4, not from code; each says which sentence it follows. Measurements
  are reals, and a field that may be absent is an \<open>option\<close>.
\<close>

subsection \<open>Sample Table and events (spec section 3)\<close>

text \<open>
  Modelled from the spec: the Sample of section 3 (the ingestion module that builds it is
  missing). The RF measurements may be absent for a sample; the Sample Table is the list
  of samples in time order.
\<close>

record sample =
  timestamp :: real
  latitude :: "real option"
  longitude :: "real option"
  RSRP :: "real option"
  RSRQ :: "real option"
  SINR :: "real option"
  serving_cell_id :: int
  throughput_dl :: "real option"
  throughput_ul :: "real option"
  call_state :: "string option"
  rrc_state :: "string option"
  event_marker :: "string option"

text \<open>Modelled from the spec: the kinds and outcomes of the Event of section 3.\<close>

datatype event_kind = HandoverAttempt | CallSession | RrcTransition

datatype event_outcome = Success | Failure | Unknown

text \<open>
  Modelled from the spec: the Event of section 3, a reconstructed occurrence with its
  start, its end (absent while unterminated), its outcome, its cause (absent when not
  classified) and, for a handover, the two cells.
\<close>

record event =
  kind :: event_kind
  start_ts :: real
  end_ts :: "real option"
  outcome :: event_outcome
  cause :: "string option"
  source_cell :: "int option"
  target_cell :: "int option"

subsection \<open>Percentages with the zero sentinel (spec sections 4.2 and 7)\<close>

datatype py_error = ZeroDivisionError

text \<open>Python's \<^verbatim>\<open>a / b\<close> on floats: it raises when the divisor is zero.\<close>

definition truediv :: "real \<Rightarrow> real \<Rightarrow> py_error + real" where
  "truediv a b = (if b = 0 then Inl ZeroDivisionError else Inr (a / b))"

text \<open>
  Modelled from the spec: "\<^verbatim>\<open>successful / total * 100\<close> (0 when total is 0, reported,
  not divided-by-zero)" and "KPIs that would divide by zero are reported as a defined
  sentinel": the share of \<open>part\<close> in \<open>whole\<close>, in percent.
\<close>

definition percentage :: "nat \<Rightarrow> nat \<Rightarrow> py_error + real" where
  "percentage part whole =
     (if whole = 0 then Inr 0
      else case truediv (real part) (real whole) of
             Inl e \<Rightarrow> Inl e
           | Inr q \<Rightarrow> Inr (q * 100))"

subsection \<open>Metric Classifiers (spec section 4.1)\<close>

text \<open>
  Modelled from the spec: "A sample is a coverage issue if \<^verbatim>\<open>RSRP < rsrp_threshold\<close> or
  \<^verbatim>\<open>RSRQ < rsrq_threshold\<close>." A sample that lacks one of the two fields is not
  classified.
\<close>

definition coverage_issue :: "real \<Rightarrow> real \<Rightarrow> sample \<Rightarrow> bool" where
  "coverage_issue rsrp_threshold rsrq_threshold s =
     (case (RSRP s, RSRQ s) of
        (Some p, Some q) \<Rightarrow> p < rsrp_threshold \<or> q < rsrq_threshold
      | _ \<Rightarrow> False)"

text \<open>
  Modelled from the spec: "It is an interference issue if \<^verbatim>\<open>SINR < sinr_threshold\<close> and
  RSRP is at or above the coverage threshold."
\<close>

definition interference_issue :: "real \<Rightarrow> real \<Rightarrow> sample \<Rightarrow> bool" where
  "interference_issue rsrp_threshold sinr_threshold s =
     (case (SINR s, RSRP s) of
        (Some i, Some p) \<Rightarrow> i < sinr_threshold \<and> rsrp_threshold \<le> p
      | _ \<Rightarrow> False)"

text \<open>
  Modelled from the spec: the third class of "classify it into good, coverage_issue,
  interference_issue": a sample is good when it is neither kind of issue.
\<close>

definition good_rf :: "real \<Rightarrow> real \<Rightarrow> real \<Rightarrow> sample \<Rightarrow> bool" where
  "good_rf rsrp_threshold rsrq_threshold sinr_threshold s =
     (\<not> coverage_issue rsrp_threshold rsrq_threshold s \<and>
      \<not> interference_issue rsrp_threshold sinr_threshold s)"

text \<open>
  Modelled from the spec: "the non-missing sample population" of the RF-metrics analysis,
  the samples that carry all three measurements the classifier needs ("Samples missing
  the required field are excluded from that classifier's percentage denominator").
\<close>

definition rf_measured :: "sample \<Rightarrow> bool" where
  "rf_measured s = (RSRP s \<noteq> None \<and> RSRQ s \<noteq> None \<and> SINR s \<noteq> None)"

text \<open>The dict of \<^verbatim>\<open>analyze_rf_metrics\<close>, by the keys \<^verbatim>\<open>app.py\<close> reads (lines 370 to 372).\<close>

record rf_dict =
  coverage_issues_pct :: real
  interference_issues_pct :: real
  good_rf_pct :: real

text \<open>
  Modelled from the spec: the RF-metrics analysis (\<^verbatim>\<open>analyze_rf_metrics\<close> of the missing
  \<^verbatim>\<open>modules/analyzer.py\<close>, called at line 358 with the table and the three thresholds):
  "three percentages over the non-missing sample population".
\<close>

definition analyze_rf_metrics :: "sample list \<Rightarrow> real \<Rightarrow> real \<Rightarrow> real \<Rightarrow> py_error + rf_dict" where
  "analyze_rf_metrics df rsrp_threshold rsrq_threshold sinr_threshold =
     (let population = filter rf_measured df;
          n = length population
      in case percentage (length (filter (coverage_issue rsrp_threshold rsrq_threshold) population)) n of
           Inl e \<Rightarrow> Inl e
         | Inr c \<Rightarrow>
      (case percentage (length (filter (interference_issue rsrp_threshold sinr_threshold) population)) n of
           Inl e \<Rightarrow> Inl e
         | Inr i \<Rightarrow>
      (case percentage (length (filter (good_rf rsrp_threshold rsrq_threshold sinr_threshold) population)) n of
           Inl e \<Rightarrow> Inl e
         | Inr g \<Rightarrow>
             Inr \<lparr>coverage_issues_pct = c, interference_issues_pct = i, good_rf_pct = g\<rparr>)))"

text \<open>A sample with the three RF measurements given and every other field absent.\<close>

definition rf_sample :: "real \<Rightarrow> real \<Rightarrow> real \<Rightarrow> sample" where
  "rf_sample p q i =
     \<lparr>timestamp = 0, latitude = None, longitude = None, RSRP = Some p, RSRQ = Some q,
      SINR = Some i, serving_cell_id = 1, throughput_dl = None, throughput_ul = None,
      call_state = None, rrc_state = None, event_marker = None\<rparr>"

subsection \<open>Handover aggregator (spec section 4.2)\<close>

text \<open>
  Modelled from the spec: "unclassifiable failures go under Other": the label under
  which a failed event is counted.
\<close>

definition cause_label :: "event \<Rightarrow> string" where
  "cause_label e = (case cause e of None \<Rightarrow> ''Other'' | Some c \<Rightarrow> c)"

text \<open>
  Modelled from the spec: the "mapping from cause label to occurrence count" of an
  AnalysisResult, built one label at a time.
\<close>

definition bump :: "string \<Rightarrow> (string \<times> int) list \<Rightarrow> (string \<times> int) list" where
  "bump c t =
     (if c \<in> fst ` set t then map (\<lambda>(k, v). if k = c then (k, v + 1) else (k, v)) t
      else t @ [(c, 1)])"

text \<open>
  Modelled from the spec: the cause-count mapping of a whole list of labels ("insertion
  order irrelevant"; here the labels stand in the order of their first occurrence).
\<close>

definition count_causes :: "string list \<Rightarrow> (string \<times> int) list" where
  "count_causes labels = foldl (\<lambda>t c. bump c t) [] labels"

text \<open>
  Modelled from the spec: the handover aggregator. "\<^verbatim>\<open>total_handovers = successful +
  failed\<close>; \<^verbatim>\<open>handover_success_rate = successful / total * 100\<close> (0 when total is 0,
  reported, not divided-by-zero)". Its input is the list of reconstructed events; an
  attempt still open at the end of the stream has outcome Unknown and is in neither
  count.
\<close>

definition handover_aggregator :: "event list \<Rightarrow> py_error + handover_dict" where
  "handover_aggregator events =
     (let attempts = filter (\<lambda>e. kind e = HandoverAttempt) events;
          successful = length (filter (\<lambda>e. outcome e = Success) attempts);
          failed = filter (\<lambda>e. outcome e = Failure) attempts;
          total_count = successful + length failed
      in case percentage successful total_count of
           Inl e \<Rightarrow> Inl e
         | Inr rate \<Rightarrow>
             Inr \<lparr>total_handovers = int total_count,
                  successful_handovers = int successful,
                  failed_handovers = int (length failed),
                  handover_success_rate = rate,
                  failure_causes = count_causes (map cause_label failed)\<rparr>)"

text \<open>
  Modelled from the spec: the handover pipeline (\<^verbatim>\<open>analyze_handover_failures\<close> of the
  missing \<^verbatim>\<open>modules/analyzer.py\<close>): the reconstructor's events, aggregated. The spec
  leaves the marker vocabulary and the window of the reconstructor open, so the
  reconstructor is a parameter.
\<close>

definition analyze_handover_failures ::
    "(sample list \<Rightarrow> event list) \<Rightarrow> sample list \<Rightarrow> py_error + handover_dict" where
  "analyze_handover_failures reconstruct df = handover_aggregator (reconstruct df)"

text \<open>A closed handover attempt with the given outcome, for the examples.\<close>

definition attempt :: "event_outcome \<Rightarrow> event" where
  "attempt r =
     \<lparr>kind = HandoverAttempt, start_ts = 0, end_ts = Some 1, outcome = r, cause = None,
      source_cell = Some 1, target_cell = Some 2\<rparr>"

section \<open>Properties of the rule table\<close>

subsection \<open>Structure: each block appends at most one finding of its own issue\<close>

lemma coverage_rule_append: "coverage_rule ts out rc = rc @ coverage_rule ts out []"
  by (simp add: coverage_rule_def Let_def)
lemma interference_rule_append: "interference_rule ts out rc = rc @ interference_rule ts out []"
  by (simp add: interference_rule_def Let_def)
lemma handover_rule_append: "handover_rule ts out rc = rc @ handover_rule ts out []"
  by (simp add: handover_rule_def Let_def)
lemma throughput_rule_append: "throughput_rule ts out rc = rc @ throughput_rule ts out []"
  by (simp add: throughput_rule_def Let_def)
lemma call_drop_rule_append: "call_drop_rule ts out rc = rc @ call_drop_rule ts out []"
  by (simp add: call_drop_rule_def Let_def)

lemma root_causes_blocks:
  "root_causes ts out =
     coverage_rule ts out [] @ interference_rule ts out [] @ handover_rule ts out [] @
     throughput_rule ts out [] @ call_drop_rule ts out []"
proof -
  have "root_causes ts out =
      (((coverage_rule ts out [] @ interference_rule ts out []) @ handover_rule ts out []) @
        throughput_rule ts out []) @ call_drop_rule ts out []"
    unfolding root_causes_def
    by (metis call_drop_rule_append throughput_rule_append handover_rule_append
        interference_rule_append)
  then show ?thesis by simp
qed

lemma findings_of_append: "findings_of i (xs @ ys) = findings_of i xs @ findings_of i ys"
  by (simp add: findings_of_def)

lemma findings_of_coverage_rule:
  "findings_of i (coverage_rule ts out []) =
     (if i = ''Coverage Problems'' then coverage_rule ts out [] else [])"
  by (simp add: findings_of_def coverage_rule_def Let_def)

lemma findings_of_interference_rule:
  "findings_of i (interference_rule ts out []) =
     (if i = ''Interference Issues'' then interference_rule ts out [] else [])"
  by (simp add: findings_of_def interference_rule_def Let_def)

lemma findings_of_handover_rule:
  "findings_of i (handover_rule ts out []) =
     (if i = ''Handover Failures'' then handover_rule ts out [] else [])"
  by (simp add: findings_of_def handover_rule_def Let_def)

lemma findings_of_throughput_rule:
  "findings_of i (throughput_rule ts out []) =
     (if i = ''Throughput Bottlenecks'' then throughput_rule ts out [] else [])"
  by (simp add: findings_of_def throughput_rule_def Let_def)

lemma findings_of_call_drop_rule:
  "findings_of i (call_drop_rule ts out []) =
     (if i = ''Call Drops'' then call_drop_rule ts out [] else [])"
  by (simp add: findings_of_def call_drop_rule_def Let_def)

lemmas findings_of_rules = findings_of_coverage_rule findings_of_interference_rule
  findings_of_handover_rule findings_of_throughput_rule findings_of_call_drop_rule

lemma findings_of_root_causes:
  "findings_of ''Coverage Problems'' (root_causes ts out) = coverage_rule ts out []"
  "findings_of ''Interference Issues'' (root_causes ts out) = interference_rule ts out []"
  "findings_of ''Handover Failures'' (root_causes ts out) = handover_rule ts out []"
  "findings_of ''Throughput Bottlenecks'' (root_causes ts out) = throughput_rule ts out []"
  "findings_of ''Call Drops'' (root_causes ts out) = call_drop_rule ts out []"
  by (simp_all add: root_causes_blocks findings_of_append findings_of_rules)

lemma subseq_rule_issue:
  "subseq (map Issue (coverage_rule ts out [])) [''Coverage Problems'']"
  "subseq (map Issue (interference_rule ts out [])) [''Interference Issues'']"
  "subseq (map Issue (handover_rule ts out [])) [''Handover Failures'']"
  "subseq (map Issue (throughput_rule ts out [])) [''Throughput Bottlenecks'']"
  "subseq (map Issue (call_drop_rule ts out [])) [''Call Drops'']"
  by (simp_all add: coverage_rule_def interference_rule_def handover_rule_def
      throughput_rule_def call_drop_rule_def Let_def)

subsection \<open>The escalation thresholds\<close>

text \<open>
  Claim C1. For the Coverage Problems and the Interference pipeline, when the pipeline is
  selected, the summarizer emits a finding of the pipeline's issue if and only if the
  headline percentage (\<^verbatim>\<open>coverage_issues_pct\<close>, resp. \<^verbatim>\<open>interference_issues_pct\<close>)
  exceeds 10; there is then exactly one such finding, and its Severity is High if the
  percentage exceeds 25 and Medium otherwise. The list of the severities of the
  pipeline's findings says all three at once.
\<close>

theorem coverage_interference_findings:
  "(''Coverage Problems'' \<in> set analysis_types \<longrightarrow>
      map Severity (findings_of ''Coverage Problems'' (root_causes analysis_types out)) =
        (let pct = coverage_dict.coverage_issues_pct (coverage_results out)
         in if pct > 10 then [if pct > 25 then ''High'' else ''Medium''] else [])) \<and>
   (''Interference'' \<in> set analysis_types \<longrightarrow>
      map Severity (findings_of ''Interference Issues'' (root_causes analysis_types out)) =
        (let pct = interference_dict.interference_issues_pct (interference_results out)
         in if pct > 10 then [if pct > 25 then ''High'' else ''Medium''] else []))"
proof (intro conjI impI)
  assume sel: "''Coverage Problems'' \<in> set analysis_types"
  have "findings_of ''Coverage Problems'' (root_causes analysis_types out) =
          coverage_rule analysis_types out []"
    by (simp add: findings_of_root_causes)
  with sel show "map Severity (findings_of ''Coverage Problems'' (root_causes analysis_types out)) =
        (let pct = coverage_dict.coverage_issues_pct (coverage_results out)
         in if pct > 10 then [if pct > 25 then ''High'' else ''Medium''] else [])"
    by (simp add: coverage_rule_def Let_def)
next
  assume sel: "''Interference'' \<in> set analysis_types"
  have "findings_of ''Interference Issues'' (root_causes analysis_types out) =
          interference_rule analysis_types out []"
    by (simp add: findings_of_root_causes)
  with sel show "map Severity (findings_of ''Interference Issues'' (root_causes analysis_types out)) =
        (let pct = interference_dict.interference_issues_pct (interference_results out)
         in if pct > 10 then [if pct > 25 then ''High'' else ''Medium''] else [])"
    by (simp add: interference_rule_def Let_def)
qed

text \<open>
  A run with both pipelines selected, coverage at 30 percent and interference at 15
  percent: one High coverage finding, one Medium interference finding.
\<close>

theorem coverage_interference_findings_witness:
  "''Coverage Problems'' \<in> set [''Coverage Problems'', ''Interference''] \<and>
   ''Interference'' \<in> set [''Coverage Problems'', ''Interference''] \<and>
   map Severity (findings_of ''Coverage Problems''
     (root_causes [''Coverage Problems'', ''Interference''] (sample_outputs 30 15 100 0 0 0))) = [''High''] \<and>
   map Severity (findings_of ''Interference Issues''
     (root_causes [''Coverage Problems'', ''Interference''] (sample_outputs 30 15 100 0 0 0))) = [''Medium'']"
  using coverage_interference_findings
    [of "[''Coverage Problems'', ''Interference'']" "sample_outputs 30 15 100 0 0 0"]
  by (simp add: sample_outputs_def)

text \<open>
  Claim C2. When Call Drops is selected and \<^verbatim>\<open>call_drop_rate\<close> is 6 (percent), the
  summarizer emits exactly one Call Drops finding, and its Severity is High.
\<close>

theorem call_drop_six_percent_high:
  "''Call Drops'' \<in> set analysis_types \<Longrightarrow> call_drop_rate (call_drop_results out) = 6 \<Longrightarrow>
   map Severity (findings_of ''Call Drops'' (root_causes analysis_types out)) = [''High'']"
proof -
  assume sel: "''Call Drops'' \<in> set analysis_types"
    and rate: "call_drop_rate (call_drop_results out) = 6"
  have "findings_of ''Call Drops'' (root_causes analysis_types out) =
          call_drop_rule analysis_types out []"
    by (simp add: findings_of_root_causes)
  with sel rate show ?thesis
    by (simp add: call_drop_rule_def Let_def)
qed

theorem call_drop_six_percent_high_witness:
  "''Call Drops'' \<in> set [''Coverage Problems'', ''Call Drops''] \<and>
   call_drop_rate (call_drop_results (sample_outputs 3 0 100 0 0 6)) = 6 \<and>
   map Severity (findings_of ''Call Drops''
     (root_causes [''Coverage Problems'', ''Call Drops''] (sample_outputs 3 0 100 0 0 6))) = [''High'']"
  using call_drop_six_percent_high
    [of "[''Coverage Problems'', ''Call Drops'']" "sample_outputs 3 0 100 0 0 6"]
  by (simp add: sample_outputs_def)

text \<open>
  Claim C10. A Throughput Bottlenecks finding is emitted exactly when the analysis type
  is selected and \<^verbatim>\<open>dl_bottleneck_areas > 5\<close> or \<^verbatim>\<open>ul_bottleneck_areas > 5\<close>; there is
  then one such finding and its Severity is Medium, whatever the counts are.
\<close>

theorem throughput_finding_medium:
  "map Severity (findings_of ''Throughput Bottlenecks'' (root_causes analysis_types out)) =
     (if ''Throughput Bottlenecks'' \<in> set analysis_types \<and>
         (dl_bottleneck_areas (throughput_results out) > 5 \<or>
          ul_bottleneck_areas (throughput_results out) > 5)
      then [''Medium''] else [])"
proof -
  have "findings_of ''Throughput Bottlenecks'' (root_causes analysis_types out) =
          throughput_rule analysis_types out []"
    by (simp add: findings_of_root_causes)
  then show ?thesis
    by (simp add: throughput_rule_def Let_def)
qed

subsection \<open>Order of the findings\<close>

text \<open>
  Claim C3, as stated, fails: the list is never sorted. With coverage at 15 percent
  (Medium) and interference at 30 percent (High) the Medium finding stands first.
\<close>

theorem medium_before_high_counterexample:
  "map Severity (root_causes [''Coverage Problems'', ''Interference'']
      (sample_outputs 15 30 100 0 0 0)) = [''Medium'', ''High''] \<and>
   \<not> ranked_by_severity (root_causes [''Coverage Problems'', ''Interference'']
      (sample_outputs 15 30 100 0 0 0))"
proof -
  let ?fs = "root_causes [''Coverage Problems'', ''Interference''] (sample_outputs 15 30 100 0 0 0)"
  have sev: "map Severity ?fs = [''Medium'', ''High'']"
    by (simp add: root_causes_blocks coverage_rule_def interference_rule_def handover_rule_def
        throughput_rule_def call_drop_rule_def sample_outputs_def)
  have len: "length ?fs = 2"
    using arg_cong [OF sev, of length] by simp
  have s0: "Severity (?fs ! 0) = ''Medium''"
    using arg_cong [OF sev, of "\<lambda>l. l ! 0"] len by simp
  have s1: "Severity (?fs ! 1) = ''High''"
    using arg_cong [OF sev, of "\<lambda>l. l ! 1"] len by simp
  have "\<not> ranked_by_severity ?fs"
  proof
    assume "ranked_by_severity ?fs"
    then have "(0::nat) < 1 \<and> 1 < length ?fs \<and> Severity (?fs ! 0) = ''Medium'' \<longrightarrow>
        Severity (?fs ! 1) \<noteq> ''High''"
      unfolding ranked_by_severity_def by blast
    with len s0 s1 show False by simp
  qed
  with sev show ?thesis by simp
qed

text \<open>
  Claim C3, amended. The findings stand in the fixed order of the source's blocks
  (Coverage Problems, Interference Issues, Handover Failures, Throughput Bottlenecks,
  Call Drops), each issue at most once, whatever their severities: the issues of the
  emitted list are a subsequence of that order.
\<close>

theorem findings_in_block_order:
  "subseq (map Issue (root_causes analysis_types out)) block_order"
proof -
  have "subseq
      (map Issue (coverage_rule analysis_types out []) @
       map Issue (interference_rule analysis_types out []) @
       map Issue (handover_rule analysis_types out []) @
       map Issue (throughput_rule analysis_types out []) @
       map Issue (call_drop_rule analysis_types out []))
      ([''Coverage Problems''] @ [''Interference Issues''] @ [''Handover Failures''] @
       [''Throughput Bottlenecks''] @ [''Call Drops''])"
    by (intro list_emb_append_mono subseq_rule_issue)
  then show ?thesis
    by (simp add: root_causes_blocks block_order_def)
qed

subsection \<open>No cross-pipeline dependence\<close>

text \<open>
  Claim C4. Take two runs of the summarizer, with any selections and any outputs. If
  pipeline \<open>X\<close> is selected in both and its own results are equal in both, the findings
  emitted for \<open>X\<close> (one finding, or none) are the same in both runs, whatever the other
  pipelines returned and whether they were selected.
\<close>

theorem finding_depends_on_own_pipeline:
  "analysis_type X \<in> set types1 \<Longrightarrow> analysis_type X \<in> set types2 \<Longrightarrow>
   same_results X out1 out2 \<Longrightarrow>
   findings_of (issue_of X) (root_causes types1 out1) =
   findings_of (issue_of X) (root_causes types2 out2)"
  by (cases X)
     (simp_all add: findings_of_root_causes coverage_rule_def interference_rule_def
        handover_rule_def throughput_rule_def call_drop_rule_def)

text \<open>
  Two runs that agree on the interference results only: the first selects Interference
  alone, the second three pipelines with other numbers everywhere else.
\<close>

theorem finding_depends_on_own_pipeline_witness:
  "analysis_type Interference \<in> set [''Interference''] \<and>
   analysis_type Interference \<in> set [''Coverage Problems'', ''Call Drops'', ''Interference''] \<and>
   same_results Interference (sample_outputs 0 30 100 0 0 0) (sample_outputs 50 30 80 9 9 9) \<and>
   findings_of (issue_of Interference)
     (root_causes [''Interference''] (sample_outputs 0 30 100 0 0 0)) =
   findings_of (issue_of Interference)
     (root_causes [''Coverage Problems'', ''Call Drops'', ''Interference'']
        (sample_outputs 50 30 80 9 9 9))"
  using finding_depends_on_own_pipeline
    [of Interference "[''Interference'']" "[''Coverage Problems'', ''Call Drops'', ''Interference'']"
        "sample_outputs 0 30 100 0 0 0" "sample_outputs 50 30 80 9 9 9"]
  by (simp add: sample_outputs_def)

section \<open>Properties of the modelled engine\<close>

subsection \<open>Counting and percentages\<close>

lemma percentage_value:
  "percentage part whole = Inr (if whole = 0 then 0 else real part / real whole * 100)"
  by (simp add: percentage_def truediv_def)

lemma count_split:
  "length (filter A xs) + length (filter B xs) + length (filter (\<lambda>x. \<not> A x \<and> \<not> B x) xs) =
   length xs + length (filter (\<lambda>x. A x \<and> B x) xs)"
  by (induction xs) auto

lemma count_disjoint:
  "length (filter A xs) + length (filter (\<lambda>x. \<not> A x \<and> \<not> B x) xs) \<le> length xs"
  by (induction xs) auto

lemma pct_bounds:
  assumes "k \<le> n" "0 < n"
  shows "0 \<le> real k / real n * 100" "real k / real n * 100 \<le> 100"
  using assms by (simp_all add: divide_le_eq)

subsection \<open>Handover success rate\<close>

text \<open>
  Claim C5. For every table (and every reconstructor) the handover analysis returns a
  result, never a division error; in it \<^verbatim>\<open>total_handovers\<close> is the sum of the successful
  and the failed handovers, and \<^verbatim>\<open>handover_success_rate\<close> is 0 when the total is 0 and
  \<^verbatim>\<open>successful / (successful + failed) * 100\<close> otherwise.
\<close>

theorem handover_success_rate_defined:
  "\<exists>d. analyze_handover_failures reconstruct df = Inr d \<and>
       total_handovers d = successful_handovers d + failed_handovers d \<and>
       handover_success_rate d =
         (if total_handovers d = 0 then 0
          else real_of_int (successful_handovers d) /
               real_of_int (successful_handovers d + failed_handovers d) * 100)"
  by (simp add: analyze_handover_failures_def handover_aggregator_def percentage_value Let_def)

text \<open>
  The spec's example: three attempts, two of them failed. The rate is a third of 100,
  which \<^verbatim>\<open>app.py\<close> (line 419) shows with two decimals as 33.33.
\<close>

lemma handover_example:
  "\<exists>d. analyze_handover_failures (\<lambda>df. [attempt Success, attempt Failure, attempt Failure]) [] = Inr d \<and>
     total_handovers d = 3 \<and> successful_handovers d = 1 \<and> failed_handovers d = 2 \<and>
     handover_success_rate d = 100 / 3"
  by (simp add: analyze_handover_failures_def handover_aggregator_def percentage_value Let_def
      attempt_def)

lemma format_one_third: "format_fixed 2 (100 / 3) = ''33.33''"
proof -
  have f: "\<lfloor>(10000::real) / 3\<rfloor> = 3333"
    by (simp add: floor_eq_iff)
  have r: "round_half_even (10000 / 3) = 3333"
    by (simp add: round_half_even_def Let_def f)
  have s: "str_nat 33 = ''33''"
    by (simp add: digit_char_def)
  show ?thesis
    by (simp add: format_fixed_def Let_def r s digit_char_def)
qed

subsection \<open>The two classifiers overlap\<close>

text \<open>
  Claim C6, as stated, fails in its last part. With the default thresholds (-105, -15, 5)
  a sample with RSRP -100, RSRQ -18 and SINR 0 is a coverage issue (RSRQ is below its
  threshold) and an interference issue (SINR is below its threshold, RSRP is not below
  the coverage threshold): it is counted in both categories.
\<close>

theorem both_categories_counterexample:
  "coverage_issue (-105) (-15) (rf_sample (-100) (-18) 0) \<and>
   interference_issue (-105) 5 (rf_sample (-100) (-18) 0)"
  by (simp add: coverage_issue_def interference_issue_def rf_sample_def)

text \<open>
  Claim C6, amended. A sample with the three measurements is a coverage issue exactly
  when \<^verbatim>\<open>RSRP < rsrp_threshold\<close> or \<^verbatim>\<open>RSRQ < rsrq_threshold\<close>, and an interference issue
  exactly when \<^verbatim>\<open>SINR < sinr_threshold\<close> and RSRP is at or above \<^verbatim>\<open>rsrp_threshold\<close>; it
  is in both categories exactly when RSRP is at or above its threshold while RSRQ and
  SINR are both below theirs.
\<close>

theorem classifier_rules:
  "RSRP s = Some p \<Longrightarrow> RSRQ s = Some q \<Longrightarrow> SINR s = Some i \<Longrightarrow>
   coverage_issue rsrp_threshold rsrq_threshold s = (p < rsrp_threshold \<or> q < rsrq_threshold) \<and>
   interference_issue rsrp_threshold sinr_threshold s = (i < sinr_threshold \<and> rsrp_threshold \<le> p) \<and>
   ((coverage_issue rsrp_threshold rsrq_threshold s \<and>
     interference_issue rsrp_threshold sinr_threshold s) =
    (rsrp_threshold \<le> p \<and> q < rsrq_threshold \<and> i < sinr_threshold))"
  by (auto simp: coverage_issue_def interference_issue_def)

theorem classifier_rules_witness:
  "RSRP (rf_sample (-110) (-10) 0) = Some (-110) \<and> RSRQ (rf_sample (-110) (-10) 0) = Some (-10) \<and>
   SINR (rf_sample (-110) (-10) 0) = Some 0 \<and>
   coverage_issue (-105) (-15) (rf_sample (-110) (-10) 0) \<and>
   \<not> interference_issue (-105) 5 (rf_sample (-110) (-10) 0)"
  using classifier_rules [of "rf_sample (-110) (-10) 0" "-110" "-10" 0 "-105" "-15" 5]
  by (simp add: rf_sample_def)

subsection \<open>The three RF percentages\<close>

text \<open>
  Claim C7, as stated, fails in its last part: the three percentages need not sum to 100.
  On a table of one sample that is in both categories they are 100, 100 and 0; on the
  empty table they are 0, 0 and 0.
\<close>

theorem rf_sum_counterexample:
  "analyze_rf_metrics [rf_sample (-100) (-18) 0] (-105) (-15) 5 =
     Inr \<lparr>coverage_issues_pct = 100, interference_issues_pct = 100, good_rf_pct = 0\<rparr> \<and>
   analyze_rf_metrics [] (-105) (-15) 5 =
     Inr \<lparr>coverage_issues_pct = 0, interference_issues_pct = 0, good_rf_pct = 0\<rparr>"
  by (simp add: analyze_rf_metrics_def percentage_value rf_measured_def coverage_issue_def
      interference_issue_def good_rf_def rf_sample_def)

text \<open>
  Claim C7, amended. For every table and every choice of the three thresholds the
  RF-metrics analysis returns a result in which \<^verbatim>\<open>coverage_issues_pct\<close> and
  \<^verbatim>\<open>good_rf_pct\<close> lie in [0, 100] and sum to at most 100. The three percentages sum to 0
  when no sample carries all three measurements, and otherwise to 100 plus the
  percentage of samples that are in both issue categories: to 100 exactly when the
  population is not empty and no sample of it is in both.
\<close>

theorem rf_percentages:
  "\<exists>d. analyze_rf_metrics df rsrp_threshold rsrq_threshold sinr_threshold = Inr d \<and>
       0 \<le> coverage_issues_pct d \<and> coverage_issues_pct d \<le> 100 \<and>
       0 \<le> good_rf_pct d \<and> good_rf_pct d \<le> 100 \<and>
       coverage_issues_pct d + good_rf_pct d \<le> 100 \<and>
       coverage_issues_pct d + interference_issues_pct d + good_rf_pct d =
         (if filter rf_measured df = [] then 0
          else 100 +
            real (length (filter (\<lambda>s. coverage_issue rsrp_threshold rsrq_threshold s \<and>
                                     interference_issue rsrp_threshold sinr_threshold s)
                            (filter rf_measured df))) /
            real (length (filter rf_measured df)) * 100)"
proof -
  define pop where "pop = filter rf_measured df"
  define a where "a = length (filter (coverage_issue rsrp_threshold rsrq_threshold) pop)"
  define b where "b = length (filter (interference_issue rsrp_threshold sinr_threshold) pop)"
  define g where "g = length (filter (good_rf rsrp_threshold rsrq_threshold sinr_threshold) pop)"
  define ov where "ov = length (filter (\<lambda>s. coverage_issue rsrp_threshold rsrq_threshold s \<and>
                                     interference_issue rsrp_threshold sinr_threshold s) pop)"
  define n where "n = length pop"
  have good: "good_rf rsrp_threshold rsrq_threshold sinr_threshold =
      (\<lambda>s. \<not> coverage_issue rsrp_threshold rsrq_threshold s \<and>
           \<not> interference_issue rsrp_threshold sinr_threshold s)"
    by (rule ext) (simp add: good_rf_def)
  have split: "a + b + g = n + ov"
    unfolding a_def b_def g_def n_def ov_def good by (rule count_split)
  have disj: "a + g \<le> n"
    unfolding a_def g_def n_def good by (rule count_disjoint)
  have an: "a \<le> n" and gn: "g \<le> n"
    unfolding a_def g_def n_def by simp_all
  have run: "analyze_rf_metrics df rsrp_threshold rsrq_threshold sinr_threshold =
      Inr \<lparr>coverage_issues_pct = (if n = 0 then 0 else real a / real n * 100),
           interference_issues_pct = (if n = 0 then 0 else real b / real n * 100),
           good_rf_pct = (if n = 0 then 0 else real g / real n * 100)\<rparr>"
    by (simp add: analyze_rf_metrics_def percentage_value Let_def pop_def a_def b_def g_def n_def)
  show ?thesis
  proof (cases "n = 0")
    case True
    then have "pop = []" by (simp add: n_def)
    with True run show ?thesis by (simp add: pop_def)
  next
    case False
    then have pos: "0 < n" by simp
    then have ne: "pop \<noteq> []" by (auto simp: n_def)
    have sum: "real a / real n * 100 + real b / real n * 100 + real g / real n * 100 =
        100 + real ov / real n * 100"
    proof -
      have "real a + real b + real g = real n + real ov"
        using split by (metis of_nat_add)
      then have "(real a + real b + real g) / real n * 100 = (real n + real ov) / real n * 100"
        by simp
      with pos show ?thesis by (simp add: add_divide_distrib distrib_right)
    qed
    have le: "real a / real n * 100 + real g / real n * 100 \<le> 100"
    proof -
      have "real (a + g) / real n * 100 \<le> 100"
        using pct_bounds(2) [OF disj pos] .
      then show ?thesis by (simp add: add_divide_distrib distrib_right)
    qed
    have a0: "0 \<le> real a / real n * 100" and a1: "real a / real n * 100 \<le> 100"
      using pct_bounds [OF an pos] by blast+
    have g0: "0 \<le> real g / real n * 100" and g1: "real g / real n * 100 \<le> 100"
      using pct_bounds [OF gn pos] by blast+
    let ?d = "\<lparr>coverage_issues_pct = real a / real n * 100,
               interference_issues_pct = real b / real n * 100,
               good_rf_pct = real g / real n * 100\<rparr>"
    have r: "analyze_rf_metrics df rsrp_threshold rsrq_threshold sinr_threshold = Inr ?d"
      using run False by simp
    have cov: "coverage_issues_pct ?d = real a / real n * 100"
      and intf: "interference_issues_pct ?d = real b / real n * 100"
      and good': "good_rf_pct ?d = real g / real n * 100"
      by simp_all
    have "analyze_rf_metrics df rsrp_threshold rsrq_threshold sinr_threshold = Inr ?d \<and>
       0 \<le> coverage_issues_pct ?d \<and> coverage_issues_pct ?d \<le> 100 \<and>
       0 \<le> good_rf_pct ?d \<and> good_rf_pct ?d \<le> 100 \<and>
       coverage_issues_pct ?d + good_rf_pct ?d \<le> 100 \<and>
       coverage_issues_pct ?d + interference_issues_pct ?d + good_rf_pct ?d =
         (if pop = [] then 0 else 100 + real ov / real n * 100)"
      unfolding cov intf good'
    proof (intro conjI)
      show "analyze_rf_metrics df rsrp_threshold rsrq_threshold sinr_threshold = Inr ?d"
        by (rule r)
      show "0 \<le> real a / real n * 100" by (rule a0)
      show "real a / real n * 100 \<le> 100" by (rule a1)
      show "0 \<le> real g / real n * 100" by (rule g0)
      show "real g / real n * 100 \<le> 100" by (rule g1)
      show "real a / real n * 100 + real g / real n * 100 \<le> 100" by (rule le)
      show "real a / real n * 100 + real b / real n * 100 + real g / real n * 100 =
          (if pop = [] then 0 else 100 + real ov / real n * 100)"
        using sum ne by (simp only: if_False)
    qed
    then have "\<exists>d. analyze_rf_metrics df rsrp_threshold rsrq_threshold sinr_threshold = Inr d \<and>
       0 \<le> coverage_issues_pct d \<and> coverage_issues_pct d \<le> 100 \<and>
       0 \<le> good_rf_pct d \<and> good_rf_pct d \<le> 100 \<and>
       coverage_issues_pct d + good_rf_pct d \<le> 100 \<and>
       coverage_issues_pct d + interference_issues_pct d + good_rf_pct d =
         (if pop = [] then 0 else 100 + real ov / real n * 100)"
      by (rule exI [where x = ?d])
    then show ?thesis
      unfolding pop_def ov_def n_def .
  qed
qed

end
